theory Spec2Isabelle
  imports Main "HOL-Library.AList"
begin

section \<open>Python values, namespaces and exceptions\<close>

text \<open>
  The two entry scripts \<^verbatim>\<open>tools/train.py\<close> and \<^verbatim>\<open>tools/infer.py\<close> are glue code: they read an
  argument namespace, look at the file system, and call collaborators (\<^verbatim>\<open>Trainer\<close>,
  \<^verbatim>\<open>Inferer\<close>, \<^verbatim>\<open>yolov6.utils.*\<close>, \<^verbatim>\<open>torch\<close>). The embedding keeps the dynamic typing of the
  argument namespace: an attribute holds a \<open>pyval\<close>, and reading a missing attribute raises.
\<close>

datatype pyval =
    PNone
  | PBool bool
  | PInt int
  | PStr string
  | PList "pyval list"
  | PDict "(string \<times> pyval) list"

text \<open>An \<^verbatim>\<open>argparse.Namespace\<close> (and \<^verbatim>\<open>vars(args)\<close>, the dictionary behind it): keys in
  insertion order.\<close>

type_synonym namespace = "(string \<times> pyval) list"

datatype error =
    AssertionError string
  | AttributeError string
  | TypeError
  | FileExistsError string
  | FileNotFoundError string
  | NotADirectoryError string
  | PermissionError string
  | CollaboratorError string

text \<open>Truth value of an object in a condition (\<^verbatim>\<open>if args.resume:\<close>).\<close>

fun truthy :: "pyval \<Rightarrow> bool" where
  "truthy PNone = False"
| "truthy (PBool b) = b"
| "truthy (PInt i) = (i \<noteq> 0)"
| "truthy (PStr s) = (s \<noteq> [])"
| "truthy (PList xs) = (xs \<noteq> [])"
| "truthy (PDict d) = (d \<noteq> [])"

definition getattr :: "namespace \<Rightarrow> string \<Rightarrow> error + pyval" where
  "getattr ns k = (case map_of ns k of None \<Rightarrow> Inl (AttributeError k) | Some v \<Rightarrow> Inr v)"

text \<open>Assignment to an attribute: an existing key keeps its place, a new key goes last.\<close>

definition setattr :: "namespace \<Rightarrow> string \<Rightarrow> pyval \<Rightarrow> namespace" where
  "setattr ns k v = AList.update k v ns"

text \<open>Integers in comparisons and sums; \<^verbatim>\<open>bool\<close> is a subclass of \<^verbatim>\<open>int\<close>.\<close>

fun as_int :: "pyval \<Rightarrow> int option" where
  "as_int (PInt i) = Some i"
| "as_int (PBool b) = Some (if b then 1 else 0)"
| "as_int _ = None"

definition py_gt :: "pyval \<Rightarrow> int \<Rightarrow> error + bool" where
  "py_gt v n = (case as_int v of Some i \<Rightarrow> Inr (n < i) | None \<Rightarrow> Inl TypeError)"

definition py_eq :: "pyval \<Rightarrow> int \<Rightarrow> bool" where
  "py_eq v n = (as_int v = Some n)"

definition py_add :: "int \<Rightarrow> pyval \<Rightarrow> error + pyval" where
  "py_add n v = (case as_int v of Some i \<Rightarrow> Inr (PInt (n + i)) | None \<Rightarrow> Inl TypeError)"

section \<open>Paths\<close>

text \<open>\<^verbatim>\<open>os.path.join\<close> of two components (posixpath): an absolute second component replaces
  the first, otherwise the two are joined with one separator.\<close>

definition osp_join :: "string \<Rightarrow> string \<Rightarrow> string" where
  "osp_join a b =
     (if take 1 b = ''/'' then b
      else if a = [] \<or> last a = CHR ''/'' then a @ b
      else a @ ''/'' @ b)"

text \<open>The same on namespace attributes: anything but a string raises \<^verbatim>\<open>TypeError\<close>.\<close>

fun osp_join_val :: "pyval \<Rightarrow> pyval \<Rightarrow> error + string" where
  "osp_join_val (PStr a) (PStr b) = Inr (osp_join a b)"
| "osp_join_val _ _ = Inl TypeError"

text \<open>
  \<^verbatim>\<open>pathlib.Path\<close> on a POSIX system, as far as the script uses it: a path is its root
  and its components; empty components and \<^verbatim>\<open>.\<close> are dropped when a string is parsed,
  \<^verbatim>\<open>..\<close> is kept; \<^verbatim>\<open>parent\<close> is lexical and the parent of a path without components is
  the path itself.
\<close>

fun split_sep :: "char \<Rightarrow> string \<Rightarrow> string list" where
  "split_sep c [] = [[]]"
| "split_sep c (x # xs) =
     (if x = c then [] # split_sep c xs
      else (case split_sep c xs of [] \<Rightarrow> [[x]] | y # ys \<Rightarrow> (x # y) # ys))"

datatype path = PurePath (root: string) (parts: "string list")

definition Path :: "string \<Rightarrow> path" where
  "Path s =
     PurePath
       (if take 1 s = ''/''
        then (if take 2 s = ''//'' \<and> take 3 s \<noteq> ''///'' then ''//'' else ''/'')
        else [])
       (filter (\<lambda>x. x \<noteq> [] \<and> x \<noteq> ''.'') (split_sep CHR ''/'' s))"

fun join_sep :: "string list \<Rightarrow> string" where
  "join_sep [] = []"
| "join_sep [x] = x"
| "join_sep (x # y # ys) = x @ ''/'' @ join_sep (y # ys)"

definition str_path :: "path \<Rightarrow> string" where
  "str_path p = (if root p = [] \<and> parts p = [] then ''.'' else root p @ join_sep (parts p))"

definition parent :: "path \<Rightarrow> path" where
  "parent p = (if parts p = [] then p else PurePath (root p) (butlast (parts p)))"

definition truediv :: "path \<Rightarrow> string \<Rightarrow> path" where
  "truediv p s =
     (let q = Path s in if root q \<noteq> [] then q else PurePath (root p) (parts p @ parts q))"

section \<open>State, effects and sequencing\<close>

text \<open>
  What a run can observe and change: which paths exist, which are regular files, and the
  sequence of effects so far (log records, directories made, collaborator calls). A
  computation takes the state and gives the new state with either a value or the
  exception that ended it; the effects made before an exception stay in the trace.
  \<^verbatim>\<open>os.makedirs\<close> can raise although \<^verbatim>\<open>os.path.exists\<close> says the path is absent (a
  dangling symbolic link, a regular file among its ancestors, a directory that may not be
  written): \<open>makedirs_error\<close> is the exception the operating system answers with for such a
  path, if any. Of a successful \<^verbatim>\<open>os.makedirs\<close> only the path it is called with is
  recorded as existing afterwards: the scripts never test an ancestor of a directory they
  made.
\<close>

record 'e state =
  path_isfile :: "string \<Rightarrow> bool"
  path_exists :: "string \<Rightarrow> bool"
  makedirs_error :: "string \<Rightarrow> error option"
  trace :: "'e list"

type_synonym ('e, 'a) exec = "'e state \<Rightarrow> (error + 'a) \<times> 'e state"

definition ret :: "'a \<Rightarrow> ('e, 'a) exec" where
  "ret x s = (Inr x, s)"

definition raise :: "error \<Rightarrow> ('e, 'a) exec" where
  "raise e s = (Inl e, s)"

definition bnd :: "('e, 'a) exec \<Rightarrow> ('a \<Rightarrow> ('e, 'b) exec) \<Rightarrow> ('e, 'b) exec" where
  "bnd m f s = (case m s of (Inl e, s') \<Rightarrow> (Inl e, s') | (Inr x, s') \<Rightarrow> f x s')"

definition lift :: "error + 'a \<Rightarrow> ('e, 'a) exec" where
  "lift r = (case r of Inl e \<Rightarrow> raise e | Inr x \<Rightarrow> ret x)"

definition emit :: "'e \<Rightarrow> ('e, unit) exec" where
  "emit ev s = (Inr (), s\<lparr>trace := trace s @ [ev]\<rparr>)"

definition os_path_isfile :: "string \<Rightarrow> ('e, bool) exec" where
  "os_path_isfile p s = (Inr (path_isfile s p), s)"

definition os_path_exists :: "string \<Rightarrow> ('e, bool) exec" where
  "os_path_exists p s = (Inr (path_exists s p), s)"

definition makedirs_raises :: "'e state \<Rightarrow> string \<Rightarrow> error option" where
  \<comment> \<open>what \<^verbatim>\<open>os.makedirs(p)\<close> without \<^verbatim>\<open>exist_ok\<close> raises: the empty path and an existing
     path are always refused\<close>
  "makedirs_raises s p =
     (if p = [] then Some (FileNotFoundError p)
      else if path_exists s p then Some (FileExistsError p)
      else makedirs_error s p)"

definition os_makedirs :: "'e \<Rightarrow> string \<Rightarrow> ('e, unit) exec" where
  \<comment> \<open>\<^verbatim>\<open>os.makedirs(p)\<close>; \<open>ev\<close> is the trace record of a directory made\<close>
  "os_makedirs ev p s =
     (case makedirs_raises s p of
        Some e \<Rightarrow> (Inl e, s)
      | None \<Rightarrow>
          (Inr (), s\<lparr>path_exists := (path_exists s)(p := True), trace := trace s @ [ev]\<rparr>))"

section \<open>The patch of \<^verbatim>\<open>torch.load\<close> (both scripts)\<close>

text \<open>
  A callable taking positional and keyword arguments; its result is paired with the
  values that the \<^verbatim>\<open>DEBUG\<close> lines printed on the way. \<^verbatim>\<open>custom_torch_load\<close> closes over
  \<^verbatim>\<open>_original_torch_load\<close>, the value \<^verbatim>\<open>torch.load\<close> had when the script was imported.
\<close>

type_synonym 'r callable = "pyval list \<Rightarrow> namespace \<Rightarrow> pyval list \<times> 'r"

definition custom_torch_load :: "'r callable \<Rightarrow> 'r callable" where
  "custom_torch_load original_torch_load args kwargs =
     (let kwargs = (if map_of kwargs ''weights_only'' = None
                    then AList.update ''weights_only'' (PBool False) kwargs else kwargs);
          printed = (case map_of kwargs ''weights_only'' of
                       None \<Rightarrow> PStr ''default_was_True_now_False'' | Some v \<Rightarrow> v);
          (out, r) = original_torch_load args kwargs
      in (printed # out, r))"

record 'r torch =
  load :: "'r callable"

definition train_import :: "'r torch \<Rightarrow> 'r torch" where
  \<comment> \<open>\<^verbatim>\<open>_original_torch_load = torch.load; torch.load = custom_torch_load\<close> in train.py\<close>
  "train_import m = m\<lparr>load := custom_torch_load (load m)\<rparr>"

definition infer_import :: "'r torch \<Rightarrow> 'r torch" where
  \<comment> \<open>the same two statements in infer.py\<close>
  "infer_import m = m\<lparr>load := custom_torch_load (load m)\<rparr>"

section \<open>\<^verbatim>\<open>tools/train.py\<close>\<close>

datatype device = SelectedDevice string | TorchDevice string pyval

datatype message =
    ResumeFrom string
  | CannotFindArgsYaml string string
  | ProvideConfiguration
  | RectNeedless
  | TrainingArgs namespace
  | InitializingProcessGroup
  | DestroyingProcessGroup

datatype train_event =
    Info message
  | Warning message
  | Makedirs string
  | CheckImgSize pyval int int
  | ConfigFromfile pyval
  | SelectDevice pyval
  | SetRandomSeed pyval bool
  | SaveYaml namespace string
  | CudaSetDevice pyval
  | InitProcessGroup string pyval pyval pyval int
  | NewTrainer namespace namespace device
  | Calibrate namespace
  | Train
  | DestroyProcessGroup

text \<open>
  The collaborators whose results the script uses are not part of the two files; they are
  parameters of a run. \<open>get_envs\<close> gives \<^verbatim>\<open>(local_rank, rank, world_size)\<close> from the process
  environment, which the run does not change; \<open>increment_name\<close> is
  \<^verbatim>\<open>str(increment_name(p))\<close>; \<open>yaml_safe_load\<close> is \<^verbatim>\<open>open\<close> followed by \<^verbatim>\<open>yaml.safe_load\<close>.
  Collaborators called for their effect only (the logger, \<^verbatim>\<open>set_random_seed\<close>,
  \<^verbatim>\<open>save_yaml\<close>, \<^verbatim>\<open>torch.cuda.set_device\<close>, \<^verbatim>\<open>torch.distributed\<close>, the \<^verbatim>\<open>Trainer\<close>) are
  records in the trace; they are taken to return and to leave the namespace as it is.
\<close>

record world =
  get_envs :: "int \<times> int \<times> int"
  find_latest_checkpoint :: string
  increment_name :: "string \<Rightarrow> string"
  check_img_size :: "pyval \<Rightarrow> int \<Rightarrow> int \<Rightarrow> error + pyval"
  Config_fromfile :: "pyval \<Rightarrow> error + namespace"
  select_device :: "pyval \<Rightarrow> error + device"
  yaml_safe_load :: "string \<Rightarrow> error + pyval"
  is_nccl_available :: bool

definition get_args_parser :: namespace where
  \<comment> \<open>the namespace \<^verbatim>\<open>parse_args([])\<close> gives: every option at its default\<close>
  "get_args_parser =
     [(''data_path'', PStr ''./data/coco.yaml''),
      (''conf_file'', PStr ''./configs/yolov6n.py''),
      (''img_size'', PInt 640),
      (''rect'', PBool False),
      (''batch_size'', PInt 32),
      (''epochs'', PInt 400),
      (''workers'', PInt 8),
      (''device'', PStr ''0''),
      (''eval_interval'', PInt 20),
      (''eval_final_only'', PBool False),
      (''heavy_eval_range'', PInt 50),
      (''check_images'', PBool False),
      (''check_labels'', PBool False),
      (''output_dir'', PStr ''./runs/train''),
      (''name'', PStr ''exp''),
      (''dist_url'', PStr ''env://''),
      (''gpu_count'', PInt 0),
      (''local_rank'', PInt (- 1)),
      (''resume'', PBool False),
      (''write_trainbatch_tb'', PBool False),
      (''stop_aug_last_n_epoch'', PInt 15),
      (''save_ckpt_on_last_n_epoch'', PInt (- 1)),
      (''distill'', PBool False),
      (''distill_feat'', PBool False),
      (''quant'', PBool False),
      (''calib'', PBool False),
      (''teacher_model_path'', PNone),
      (''temperature'', PInt 20),
      (''fuse_ab'', PBool False),
      (''bs_per_gpu'', PInt 32),
      (''specific_shape'', PBool False),
      (''height'', PNone),
      (''width'', PNone),
      (''cache_ram'', PBool False)]"

definition master_process_of :: "namespace \<Rightarrow> error + bool" where
  \<comment> \<open>\<^verbatim>\<open>args.rank == 0 if args.world_size > 1 else args.rank == -1\<close>\<close>
  "master_process_of args =
     (case getattr args ''world_size'' of Inl e \<Rightarrow> Inl e | Inr ws \<Rightarrow>
       (case py_gt ws 1 of Inl e \<Rightarrow> Inl e | Inr multi \<Rightarrow>
         (case getattr args ''rank'' of Inl e \<Rightarrow> Inl e | Inr r \<Rightarrow>
            Inr (if multi then py_eq r 0 else py_eq r (- 1)))))"

definition Namespace :: "pyval \<Rightarrow> error + namespace" where
  \<comment> \<open>\<^verbatim>\<open>argparse.Namespace(**v)\<close>: \<open>v\<close> must be a mapping with string keys\<close>
  "Namespace v = (case v of PDict d \<Rightarrow> Inr d | _ \<Rightarrow> Inl TypeError)"

definition resolve_checkpoint :: "world \<Rightarrow> pyval \<Rightarrow> string" where
  \<comment> \<open>\<^verbatim>\<open>args.resume if isinstance(args.resume, str) else find_latest_checkpoint()\<close>\<close>
  "resolve_checkpoint w resume = (case resume of PStr p \<Rightarrow> p | _ \<Rightarrow> find_latest_checkpoint w)"

definition check_files :: "world \<Rightarrow> bool \<Rightarrow> namespace \<Rightarrow> (train_event, namespace) exec" where
  \<comment> \<open>the block under \<^verbatim>\<open># check files\<close> after \<^verbatim>\<open>master_process\<close> is known\<close>
  "check_files w master_process args =
     bnd (lift (getattr args ''resume'')) (\<lambda>resume.
     if truthy resume then
       (let checkpoint_path = resolve_checkpoint w resume in
        bnd (os_path_isfile checkpoint_path) (\<lambda>is_file.
        if \<not> is_file then raise (AssertionError checkpoint_path) else
        bnd (emit (Info (ResumeFrom checkpoint_path))) (\<lambda>_.
        (let resume_opt_file_path =
               truediv (parent (parent (Path checkpoint_path))) ''args.yaml'' in
         bnd (os_path_exists (str_path resume_opt_file_path)) (\<lambda>found.
         bnd (if found then
                bnd (lift (yaml_safe_load w (str_path resume_opt_file_path))) (\<lambda>loaded.
                lift (Namespace loaded))
              else
                bnd (emit (Warning (CannotFindArgsYaml
                       (str_path (truediv (parent (parent (Path checkpoint_path))) ''args.yaml''))
                       (str_path (parent (parent (Path checkpoint_path))))))) (\<lambda>_.
                bnd (emit (Warning ProvideConfiguration)) (\<lambda>_.
                ret (setattr args ''save_dir''
                       (PStr (str_path (parent (parent (Path checkpoint_path)))))))))
           (\<lambda>args. ret (setattr args ''resume'' (PStr checkpoint_path))))))))
     else
       bnd (lift (getattr args ''output_dir'')) (\<lambda>output_dir.
       bnd (lift (getattr args ''name'')) (\<lambda>name.
       bnd (lift (osp_join_val output_dir name)) (\<lambda>p.
       (let save_dir = increment_name w p;
            args = setattr args ''save_dir'' (PStr save_dir) in
        bnd (if master_process then os_makedirs (Makedirs save_dir) save_dir else ret ()) (\<lambda>_.
        ret args))))))"

definition call_check_img_size :: "world \<Rightarrow> pyval \<Rightarrow> int \<Rightarrow> int \<Rightarrow> (train_event, pyval) exec" where
  "call_check_img_size w v s floor_v =
     bnd (emit (CheckImgSize v s floor_v)) (\<lambda>_. lift (check_img_size w v s floor_v))"

definition check_shape :: "world \<Rightarrow> namespace \<Rightarrow> (train_event, namespace) exec" where
  \<comment> \<open>the block under \<^verbatim>\<open># check specific shape\<close>\<close>
  "check_shape w args =
     bnd (lift (getattr args ''specific_shape'')) (\<lambda>specific_shape.
     if truthy specific_shape then
       bnd (lift (getattr args ''rect'')) (\<lambda>rect.
       bnd (if truthy rect then emit (Warning RectNeedless) else ret ()) (\<lambda>_.
       bnd (lift (getattr args ''height'')) (\<lambda>height.
       bnd (call_check_img_size w height 32 256) (\<lambda>height.
       (let args = setattr args ''height'' height in
        bnd (lift (getattr args ''width'')) (\<lambda>width.
        bnd (call_check_img_size w width 32 256) (\<lambda>width.
        ret (setattr args ''width'' width))))))))
     else
       bnd (lift (getattr args ''img_size'')) (\<lambda>img_size.
       bnd (call_check_img_size w img_size 32 256) (\<lambda>img_size.
       ret (setattr args ''img_size'' img_size))))"

definition load_config :: "world \<Rightarrow> namespace \<Rightarrow> (train_event, namespace) exec" where
  \<comment> \<open>\<^verbatim>\<open>Config.fromfile(args.conf_file)\<close> and the default of \<^verbatim>\<open>training_mode\<close>\<close>
  "load_config w args =
     bnd (lift (getattr args ''conf_file'')) (\<lambda>conf_file.
     bnd (emit (ConfigFromfile conf_file)) (\<lambda>_.
     bnd (lift (Config_fromfile w conf_file)) (\<lambda>cfg.
     ret (if map_of cfg ''training_mode'' = None
          then setattr cfg ''training_mode'' (PStr ''repvgg'') else cfg))))"

definition check_device :: "world \<Rightarrow> namespace \<Rightarrow> (train_event, device) exec" where
  \<comment> \<open>\<^verbatim>\<open># check device\<close> and \<^verbatim>\<open># set random seed\<close>\<close>
  "check_device w args =
     bnd (lift (getattr args ''device'')) (\<lambda>dev.
     bnd (emit (SelectDevice dev)) (\<lambda>_.
     bnd (lift (select_device w dev)) (\<lambda>device.
     bnd (lift (getattr args ''rank'')) (\<lambda>rank.
     bnd (lift (py_add 1 rank)) (\<lambda>seed.
     bnd (emit (SetRandomSeed seed (py_eq rank (- 1)))) (\<lambda>_.
     ret device))))))"

definition save_args :: "bool \<Rightarrow> namespace \<Rightarrow> (train_event, unit) exec" where
  \<comment> \<open>\<^verbatim>\<open># save args\<close>\<close>
  "save_args master_process args =
     (if master_process then
        bnd (lift (getattr args ''save_dir'')) (\<lambda>save_dir.
        bnd (lift (osp_join_val save_dir (PStr ''args.yaml''))) (\<lambda>p.
        emit (SaveYaml args p)))
      else ret ())"

definition check_and_init ::
  "world \<Rightarrow> namespace \<Rightarrow> (train_event, namespace \<times> device \<times> namespace) exec" where
  "check_and_init w args =
     bnd (lift (master_process_of args)) (\<lambda>master_process.
     bnd (check_files w master_process args) (\<lambda>args.
     bnd (check_shape w args) (\<lambda>args.
     bnd (load_config w args) (\<lambda>cfg.
     bnd (check_device w args) (\<lambda>device.
     bnd (save_args master_process args) (\<lambda>_.
     ret (cfg, device, args)))))))"

definition set_envs :: "int \<times> int \<times> int \<Rightarrow> namespace \<Rightarrow> namespace" where
  \<comment> \<open>\<^verbatim>\<open>args.local_rank, args.rank, args.world_size = get_envs()\<close>\<close>
  "set_envs e args =
     (case e of (local_rank, rank, world_size) \<Rightarrow>
        setattr (setattr (setattr args ''local_rank'' (PInt local_rank))
                   ''rank'' (PInt rank)) ''world_size'' (PInt world_size))"

definition init_ddp :: "world \<Rightarrow> namespace \<Rightarrow> device \<Rightarrow> (train_event, device) exec" where
  \<comment> \<open>\<^verbatim>\<open>if args.local_rank != -1: # if DDP mode\<close>\<close>
  "init_ddp w args device =
     bnd (lift (getattr args ''local_rank'')) (\<lambda>local_rank.
     if \<not> py_eq local_rank (- 1) then
       bnd (emit (CudaSetDevice local_rank)) (\<lambda>_.
       bnd (emit (Info InitializingProcessGroup)) (\<lambda>_.
       bnd (lift (getattr args ''dist_url'')) (\<lambda>dist_url.
       bnd (lift (getattr args ''world_size'')) (\<lambda>world_size.
       bnd (emit (InitProcessGroup (if is_nccl_available w then ''nccl'' else ''gloo'')
                    dist_url local_rank world_size 7200)) (\<lambda>_.
       ret (TorchDevice ''cuda'' local_rank))))))
     else ret device)"

definition start_trainer :: "namespace \<Rightarrow> namespace \<Rightarrow> device \<Rightarrow> (train_event, unit) exec" where
  \<comment> \<open>from \<^verbatim>\<open># Start\<close> to the end of \<^verbatim>\<open>main\<close>\<close>
  "start_trainer args cfg device =
     bnd (emit (NewTrainer args cfg device)) (\<lambda>_.
     bnd (lift (getattr args ''quant'')) (\<lambda>quant.
     bnd (if truthy quant then bnd (lift (getattr args ''calib'')) (\<lambda>calib. ret (truthy calib))
          else ret False) (\<lambda>ptq.
     if ptq then emit (Calibrate cfg)
     else
       bnd (emit Train) (\<lambda>_.
       bnd (lift (getattr args ''world_size'')) (\<lambda>world_size.
       bnd (lift (py_gt world_size 1)) (\<lambda>multi.
       bnd (if multi then bnd (lift (getattr args ''rank'')) (\<lambda>rank. ret (py_eq rank 0))
            else ret False) (\<lambda>master.
       if master then
         bnd (emit (Info DestroyingProcessGroup)) (\<lambda>_. emit DestroyProcessGroup)
       else ret ())))))))"

definition main :: "world \<Rightarrow> namespace \<Rightarrow> (train_event, unit) exec" where
  "main w args =
     (let args = set_envs (get_envs w) args in
      bnd (check_and_init w args) (\<lambda>(cfg, device, args).
      (let args = set_envs (get_envs w) args in
       bnd (emit (Info (TrainingArgs args))) (\<lambda>_.
       bnd (init_ddp w args device) (\<lambda>device.
       start_trainer args cfg device)))))"

section \<open>\<^verbatim>\<open>tools/infer.py\<close>\<close>

text \<open>
  \<^verbatim>\<open>run\<close> looks at five of its parameters (\<^verbatim>\<open>save_dir\<close>, \<^verbatim>\<open>project\<close>, \<^verbatim>\<open>name\<close>, \<^verbatim>\<open>save_txt\<close>,
  \<^verbatim>\<open>not_save_img\<close>) and hands the others on as they are; those have the type \<open>'v\<close>.
\<close>

record 'v run_args =
  weights :: 'v
  source :: 'v
  webcam :: 'v
  webcam_addr :: 'v
  yaml :: 'v
  img_size :: 'v
  conf_thres :: 'v
  iou_thres :: 'v
  max_det :: 'v
  device :: 'v
  save_txt :: bool
  not_save_img :: bool
  save_dir :: "string option"
  view_img :: 'v
  classes :: 'v
  agnostic_nms :: 'v
  project :: string
  name :: string
  hide_labels :: 'v
  hide_conf :: 'v
  half :: 'v

datatype infer_message = SaveDirExisted | ResultsSavedTo string

datatype 'v infer_event =
    InferInfo infer_message
  | InferWarning infer_message
  | InferMakedirs string
  | NewInferer 'v 'v 'v 'v 'v 'v 'v 'v
  | Infer 'v 'v 'v 'v 'v string bool bool 'v 'v 'v

definition run :: "'v run_args \<Rightarrow> ('v infer_event, unit) exec" where
  "run a =
     (let (save_dir, save_txt_path) =
            (case save_dir a of
               None \<Rightarrow> (let d = osp_join (project a) (name a) in (d, osp_join d ''labels''))
             | Some d \<Rightarrow> (d, d)) in
      bnd (if \<not> not_save_img a \<or> save_txt a
           then bnd (os_path_exists save_dir) (\<lambda>found. ret (\<not> found))
           else ret False) (\<lambda>create.
      bnd (if create then os_makedirs (InferMakedirs save_dir) save_dir
           else emit (InferWarning SaveDirExisted)) (\<lambda>_.
      bnd (if save_txt a then
             (let save_txt_path = osp_join save_dir ''labels'' in
              bnd (os_path_exists save_txt_path) (\<lambda>found.
              if \<not> found then os_makedirs (InferMakedirs save_txt_path) save_txt_path
              else ret ()))
           else ret ()) (\<lambda>_.
      bnd (emit (NewInferer (source a) (webcam a) (webcam_addr a) (weights a) (device a)
                   (yaml a) (img_size a) (half a))) (\<lambda>_.
      bnd (emit (Infer (conf_thres a) (iou_thres a) (classes a) (agnostic_nms a) (max_det a)
                   save_dir (save_txt a) (\<not> not_save_img a) (hide_labels a) (hide_conf a)
                   (view_img a))) (\<lambda>_.
      if save_txt a \<or> \<not> not_save_img a then emit (InferInfo (ResultsSavedTo save_dir))
      else ret ()))))))"

section \<open>Notions used to state the properties\<close>

text \<open>The effects a computation adds to the trace of the state it starts from.\<close>

definition events_of :: "('e, 'a) exec \<Rightarrow> 'e state \<Rightarrow> 'e list" where
  "events_of m s = drop (length (trace s)) (trace (snd (m s)))"

text \<open>A computation that leaves the set of regular files alone and adds only events
  satisfying \<open>P\<close>, whether it returns or raises.\<close>

definition emits_only :: "('e \<Rightarrow> bool) \<Rightarrow> ('e, 'a) exec \<Rightarrow> bool" where
  "emits_only P m =
     (\<forall>s. path_isfile (snd (m s)) = path_isfile s \<and>
          (\<exists>evs. trace (snd (m s)) = trace s @ evs \<and> list_all P evs))"

fun is_trainer_event :: "train_event \<Rightarrow> bool" where
  "is_trainer_event (NewTrainer a c d) = True"
| "is_trainer_event (Calibrate c) = True"
| "is_trainer_event Train = True"
| "is_trainer_event _ = False"

fun is_inferer_event :: "'v infer_event \<Rightarrow> bool" where
  "is_inferer_event (NewInferer a b c d e f g h) = True"
| "is_inferer_event (Infer a b c d e f g h i j k) = True"
| "is_inferer_event _ = False"

text \<open>The condition \<^verbatim>\<open>args.quant and args.calib\<close> on a namespace that has the attributes
  it reads.\<close>

definition quant_and_calib :: "namespace \<Rightarrow> bool" where
  "quant_and_calib a =
     (case map_of a ''quant'' of None \<Rightarrow> False
      | Some q \<Rightarrow> truthy q \<and> (case map_of a ''calib'' of None \<Rightarrow> False | Some c \<Rightarrow> truthy c))"

text \<open>
  The steps of a training run, in the order the specification lists them, and the step
  each effect belongs to: 0 resolving the checkpoint and the save directory, 1 validating
  the image size, 2 loading the configuration, 3 selecting the device, 4 seeding the random
  number generators, 5 saving the arguments, 6 logging the arguments, 7 joining the process
  group, 8 constructing the trainer, 9 the trainer's method, 10 leaving the process group.
\<close>

fun phase :: "train_event \<Rightarrow> nat" where
  "phase (Info (ResumeFrom p)) = 0"
| "phase (Warning (CannotFindArgsYaml y d)) = 0"
| "phase (Warning ProvideConfiguration) = 0"
| "phase (Makedirs p) = 0"
| "phase (Warning RectNeedless) = 1"
| "phase (CheckImgSize v s f) = 1"
| "phase (ConfigFromfile c) = 2"
| "phase (SelectDevice d) = 3"
| "phase (SetRandomSeed v b) = 4"
| "phase (SaveYaml a p) = 5"
| "phase (Info (TrainingArgs a)) = 6"
| "phase (CudaSetDevice r) = 7"
| "phase (Info InitializingProcessGroup) = 7"
| "phase (InitProcessGroup b u r n t) = 7"
| "phase (NewTrainer a c d) = 8"
| "phase (Calibrate c) = 9"
| "phase Train = 9"
| "phase (Info DestroyingProcessGroup) = 10"
| "phase DestroyProcessGroup = 10"
| "phase _ = 11"

text \<open>A computation whose effects come in step order, all of them between two steps, and
  which leaves the set of regular files alone, whether it returns or raises.\<close>

definition phased :: "nat \<Rightarrow> nat \<Rightarrow> (train_event, 'a) exec \<Rightarrow> bool" where
  "phased lo hi m =
     (\<forall>s. path_isfile (snd (m s)) = path_isfile s \<and>
          (\<exists>evs. trace (snd (m s)) = trace s @ evs \<and> sorted (map phase evs) \<and>
                 list_all (\<lambda>e. lo \<le> phase e \<and> phase e \<le> hi) evs))"

text \<open>The directory \<^verbatim>\<open>run\<close> saves to: \<^verbatim>\<open>save_dir\<close>, or \<^verbatim>\<open>project/name\<close> when none is given.\<close>

definition save_dir_of :: "'v run_args \<Rightarrow> string" where
  "save_dir_of a = (case save_dir a of None \<Rightarrow> osp_join (project a) (name a) | Some d \<Rightarrow> d)"

subsection \<open>Sample inputs\<close>

definition empty_fs :: "'e state" where
  "empty_fs =
     \<lparr>path_isfile = (\<lambda>_. False), path_exists = (\<lambda>_. False), makedirs_error = (\<lambda>_. None),
      trace = []\<rparr>"

definition sample_run_args :: "string run_args" where
  \<comment> \<open>the defaults of the inference parser, with \<^verbatim>\<open>--not-save-img\<close>\<close>
  "sample_run_args =
     \<lparr>weights = ''weights/yolov6s.pt'', source = ''data/images'', webcam = ''False'',
      webcam_addr = ''0'', yaml = ''data/coco.yaml'', img_size = ''[640, 640]'',
      conf_thres = ''0.4'', iou_thres = ''0.45'', max_det = ''1000'', device = ''0'',
      save_txt = False, not_save_img = True, save_dir = None, view_img = ''False'',
      classes = ''None'', agnostic_nms = ''False'', project = ''runs/inference'',
      name = ''exp'', hide_labels = ''False'', hide_conf = ''False'', half = ''False''\<rparr>"

definition sample_torch :: "namespace torch" where
  \<comment> \<open>a \<^verbatim>\<open>torch.load\<close> that answers with the keyword arguments it was given\<close>
  "sample_torch = \<lparr>load = (\<lambda>args kwargs. ([], kwargs))\<rparr>"

definition sample_check_img_size :: "pyval \<Rightarrow> int \<Rightarrow> int \<Rightarrow> error + pyval" where
  "sample_check_img_size v s floor_v =
     (case v of
        PInt i \<Rightarrow> Inr (PList [PInt (max (((i + s - 1) div s) * s) floor_v),
                              PInt (max (((i + s - 1) div s) * s) floor_v)])
      | _ \<Rightarrow> Inl (CollaboratorError ''Unsupported type of img_size''))"

definition sample_checkpoint :: string where
  "sample_checkpoint = ''runs/train/exp/weights/last_ckpt.pt''"

definition sample_snapshot :: namespace where
  "sample_snapshot =
     [(''conf_file'', PStr ''./configs/yolov6s.py''), (''img_size'', PInt 640),
      (''rect'', PBool False), (''device'', PStr ''0''), (''epochs'', PInt 300),
      (''output_dir'', PStr ''./runs/train''), (''name'', PStr ''exp''),
      (''dist_url'', PStr ''env://''), (''local_rank'', PInt (- 1)), (''resume'', PBool False),
      (''quant'', PBool False), (''calib'', PBool False), (''specific_shape'', PBool False),
      (''height'', PNone), (''width'', PNone), (''rank'', PInt (- 1)),
      (''world_size'', PInt 1), (''save_dir'', PStr ''runs/train/exp'')]"

definition sample_world :: world where
  "sample_world =
     \<lparr>get_envs = (- 1, - 1, 1),
      find_latest_checkpoint = sample_checkpoint,
      increment_name = (\<lambda>p. p),
      check_img_size = sample_check_img_size,
      Config_fromfile = (\<lambda>_. Inr [(''model'', PDict [])]),
      select_device = (\<lambda>_. Inr (SelectedDevice ''cuda:0'')),
      yaml_safe_load = (\<lambda>_. Inr (PDict sample_snapshot)),
      is_nccl_available = True\<rparr>"

definition checkpoint_fs :: "train_event state" where
  "checkpoint_fs =
     \<lparr>path_isfile = (\<lambda>p. p = sample_checkpoint), path_exists = (\<lambda>p. p = sample_checkpoint),
      makedirs_error = (\<lambda>_. None), trace = []\<rparr>"

definition snapshot_fs :: "train_event state" where
  "snapshot_fs =
     \<lparr>path_isfile = (\<lambda>p. p = sample_checkpoint \<or> p = ''runs/train/exp/args.yaml''),
      path_exists = (\<lambda>p. p = sample_checkpoint \<or> p = ''runs/train/exp/args.yaml''),
      makedirs_error = (\<lambda>_. None), trace = []\<rparr>"

definition sample_resume_args :: namespace where
  \<comment> \<open>the parser's defaults with a bare \<^verbatim>\<open>--resume\<close>\<close>
  "sample_resume_args = setattr get_args_parser ''resume'' (PBool True)"

definition missing_checkpoint_args :: namespace where
  \<comment> \<open>\<^verbatim>\<open>--resume missing.pt\<close>\<close>
  "missing_checkpoint_args = setattr get_args_parser ''resume'' (PStr ''missing.pt'')"

definition quant_calib_args :: namespace where
  \<comment> \<open>\<^verbatim>\<open>--quant --calib\<close>\<close>
  "quant_calib_args =
     setattr (setattr get_args_parser ''quant'' (PBool True)) ''calib'' (PBool True)"


definition rank0_world :: world where
  \<comment> \<open>\<^verbatim>\<open>LOCAL_RANK=0 RANK=0 WORLD_SIZE=2\<close>\<close>
  "rank0_world = sample_world\<lparr>get_envs := (0, 0, 2)\<rparr>"

definition rank1_world :: world where
  \<comment> \<open>\<^verbatim>\<open>LOCAL_RANK=1 RANK=1 WORLD_SIZE=2\<close>\<close>
  "rank1_world = sample_world\<lparr>get_envs := (1, 1, 2)\<rparr>"

definition empty_save_dir_args :: "string run_args" where
  \<comment> \<open>\<^verbatim>\<open>--save-dir ''\<close>, images to be saved\<close>
  "empty_save_dir_args = sample_run_args\<lparr>not_save_img := False, save_dir := Some []\<rparr>"

section \<open>Basic facts\<close>

lemmas exec_defs = bnd_def ret_def raise_def lift_def emit_def os_path_isfile_def
  os_path_exists_def os_makedirs_def

lemma events_ofI: "trace (snd (m s)) = trace s @ evs \<Longrightarrow> events_of m s = evs"
  by (simp add: events_of_def)


lemma map_of_setattr: "map_of (setattr ns k v) k' = (if k' = k then Some v else map_of ns k')"
  by (simp add: setattr_def update_conv')

lemma getattr_setattr: "getattr (setattr ns k v) k' = (if k' = k then Inr v else getattr ns k')"
  by (simp add: getattr_def map_of_setattr)

lemma update_absent: "map_of al k = None \<Longrightarrow> AList.update k v al = al @ [(k, v)]"
  by (induction al) (auto split: if_splits)

section \<open>Facts about the training script\<close>

lemma getattr_Inr: "getattr ns k = Inr v \<longleftrightarrow> map_of ns k = Some v"
  by (simp add: getattr_def split: option.splits)

lemma map_of_set_envs:
  "map_of (set_envs (lr, r, ws) a) k =
     (if k = ''world_size'' then Some (PInt ws)
      else if k = ''rank'' then Some (PInt r)
      else if k = ''local_rank'' then Some (PInt lr)
      else map_of a k)"
  by (simp add: set_envs_def map_of_setattr)


lemma bnd_Inr:
  "bnd m f s = (Inr y, s') \<Longrightarrow> \<exists>x s1. m s = (Inr x, s1) \<and> f x s1 = (Inr y, s')"
  by (auto simp: bnd_def split: prod.splits sum.splits)










lemma emits_only_ret: "emits_only P (ret x)"
  by (simp add: emits_only_def ret_def)

lemma emits_only_raise: "emits_only P (raise e)"
  by (simp add: emits_only_def raise_def)

lemma emits_only_lift: "emits_only P (lift r)"
  by (cases r) (simp_all add: lift_def emits_only_ret emits_only_raise)

lemma emits_only_emit: "P ev \<Longrightarrow> emits_only P (emit ev)"
  by (simp add: emits_only_def emit_def)

lemma emits_only_isfile: "emits_only P (os_path_isfile p)"
  by (simp add: emits_only_def os_path_isfile_def)

lemma emits_only_exists: "emits_only P (os_path_exists p)"
  by (simp add: emits_only_def os_path_exists_def)

lemma emits_only_makedirs: "P ev \<Longrightarrow> emits_only P (os_makedirs ev p)"
  by (simp add: emits_only_def os_makedirs_def split: option.splits)

lemma emits_only_bnd:
  assumes "emits_only P m" and "\<And>x. emits_only P (f x)"
  shows "emits_only P (bnd m f)"
proof (unfold emits_only_def, intro allI)
  fix s
  obtain r s1 where ms: "m s = (r, s1)" by (cases "m s")
  from assms(1) ms obtain evs where
    m1: "path_isfile s1 = path_isfile s" "trace s1 = trace s @ evs" "list_all P evs"
    unfolding emits_only_def by (metis snd_conv)
  show "path_isfile (snd (bnd m f s)) = path_isfile s \<and>
        (\<exists>evs. trace (snd (bnd m f s)) = trace s @ evs \<and> list_all P evs)"
  proof (cases r)
    case (Inl e)
    then show ?thesis using ms m1 by (simp add: bnd_def)
  next
    case (Inr x)
    from assms(2) [of x] obtain evs' where
      "path_isfile (snd (f x s1)) = path_isfile s1" "trace (snd (f x s1)) = trace s1 @ evs'"
      "list_all P evs'"
      unfolding emits_only_def by blast
    then show ?thesis using ms m1 Inr by (simp add: bnd_def)
  qed
qed

lemma emits_only_if:
  "(c \<Longrightarrow> emits_only P a) \<Longrightarrow> (\<not> c \<Longrightarrow> emits_only P b) \<Longrightarrow> emits_only P (if c then a else b)"
  by simp

lemmas emits_only_intros = emits_only_bnd emits_only_if emits_only_ret emits_only_raise
  emits_only_lift emits_only_emit emits_only_isfile emits_only_exists emits_only_makedirs



lemma init_ddp_Inr:
  assumes "init_ddp w (set_envs (lr, r, ws) a) d s = (Inr d', s')"
  shows "if lr \<noteq> - 1 then
           \<exists>url. map_of a ''dist_url'' = Some url \<and> d' = TorchDevice ''cuda'' (PInt lr) \<and>
             s' = s\<lparr>trace := trace s @ [CudaSetDevice (PInt lr), Info InitializingProcessGroup,
                    InitProcessGroup (if is_nccl_available w then ''nccl'' else ''gloo'') url
                      (PInt lr) (PInt ws) 7200]\<rparr>
         else d' = d \<and> s' = s"
  using assms
  by (auto simp: init_ddp_def getattr_def map_of_set_envs exec_defs py_eq_def
      split: sum.splits option.splits if_splits)

lemma start_trainer_Inr:
  assumes "start_trainer (set_envs (lr, r, ws) a) cfg d s = (Inr u, s')"
  shows "s' = s\<lparr>trace := trace s @ NewTrainer (set_envs (lr, r, ws) a) cfg d #
            (if quant_and_calib a then [Calibrate cfg]
             else Train # (if 1 < ws \<and> r = 0
                           then [Info DestroyingProcessGroup, DestroyProcessGroup] else []))\<rparr>"
  using assms
  by (auto simp: start_trainer_def quant_and_calib_def getattr_def map_of_set_envs exec_defs
      py_eq_def py_gt_def split: sum.splits option.splits if_splits)

lemma start_trainer_trace:
  "\<exists>evs. trace (snd (start_trainer a cfg d s)) = trace s @ NewTrainer a cfg d # evs \<and>
         evs \<in> {[], [Calibrate cfg], [Train],
                 [Train, Info DestroyingProcessGroup, DestroyProcessGroup]}"
  by (auto simp: start_trainer_def getattr_def exec_defs
      split: sum.splits option.splits if_splits)

lemma main_Inr:
  assumes "main w args s = (Inr u, s')" and "get_envs w = (lr, r, ws)"
  shows "\<exists>cfg dev a2 s2 ddp.
           check_and_init w (set_envs (lr, r, ws) args) s = (Inr (cfg, dev, a2), s2) \<and>
           (if lr \<noteq> - 1 then
              \<exists>url. map_of a2 ''dist_url'' = Some url \<and>
                ddp = [CudaSetDevice (PInt lr), Info InitializingProcessGroup,
                       InitProcessGroup (if is_nccl_available w then ''nccl'' else ''gloo'') url
                         (PInt lr) (PInt ws) 7200]
            else ddp = []) \<and>
           trace s' = trace s2 @ [Info (TrainingArgs (set_envs (lr, r, ws) a2))] @ ddp @
             NewTrainer (set_envs (lr, r, ws) a2) cfg
               (if lr \<noteq> - 1 then TorchDevice ''cuda'' (PInt lr) else dev) #
             (if quant_and_calib a2 then [Calibrate cfg]
              else Train # (if 1 < ws \<and> r = 0
                            then [Info DestroyingProcessGroup, DestroyProcessGroup] else []))"
proof -
  let ?A = "set_envs (lr, r, ws) args"
  from assms obtain x s2 where ci: "check_and_init w ?A s = (Inr x, s2)"
    and r1: "(case x of (c, d, a) \<Rightarrow>
               (let b = set_envs (get_envs w) a in
                bnd (emit (Info (TrainingArgs b))) (\<lambda>_.
                bnd (init_ddp w b d) (\<lambda>d'.
                start_trainer b c d')))) s2 = (Inr u, s')"
    unfolding main_def Let_def by (auto dest: bnd_Inr)
  obtain cfg dev a2 where x: "x = (cfg, dev, a2)" by (cases x)
  let ?B = "set_envs (lr, r, ws) a2"
  let ?s3 = "s2\<lparr>trace := trace s2 @ [Info (TrainingArgs ?B)]\<rparr>"
  from r1 x assms(2) have r2:
    "bnd (init_ddp w ?B dev) (\<lambda>d'. start_trainer ?B cfg d') ?s3 = (Inr u, s')"
    by (simp add: Let_def bnd_def emit_def)
  then obtain d' s4 where dd: "init_ddp w ?B dev ?s3 = (Inr d', s4)"
    and st: "start_trainer ?B cfg d' s4 = (Inr u, s')"
    by (blast dest: bnd_Inr)
  note i = init_ddp_Inr [OF dd] and t = start_trainer_Inr [OF st]
  show ?thesis
  proof (cases "lr = - 1")
    case True
    with i t ci x show ?thesis by auto
  next
    case False
    with i t ci x show ?thesis by auto
  qed
qed

lemma main_Inl_trainer:
  assumes "check_and_init w (set_envs (get_envs w) args) s = (Inl e, s1)"
  shows "main w args s = (Inl e, s1)"
  using assms by (simp add: main_def Let_def bnd_def)


lemma sorted_const_phase: "list_all (\<lambda>e. phase e = k) evs \<Longrightarrow> sorted (map phase evs)"
  by (induction evs) (auto simp: list_all_iff)

lemma phased_of_emits_only:
  assumes "emits_only (\<lambda>e. phase e = k) m"
  shows "phased k k m"
  unfolding phased_def
proof (intro allI conjI)
  fix s
  from assms obtain evs where e: "path_isfile (snd (m s)) = path_isfile s"
    "trace (snd (m s)) = trace s @ evs" "list_all (\<lambda>e. phase e = k) evs"
    unfolding emits_only_def by blast
  show "path_isfile (snd (m s)) = path_isfile s" by (rule e)
  have "sorted (map phase evs)" by (rule sorted_const_phase [OF e(3)])
  moreover have "list_all (\<lambda>e. k \<le> phase e \<and> phase e \<le> k) evs"
    using e(3) by (simp add: list_all_iff)
  ultimately show "\<exists>evs. trace (snd (m s)) = trace s @ evs \<and> sorted (map phase evs) \<and>
                 list_all (\<lambda>e. k \<le> phase e \<and> phase e \<le> k) evs"
    using e(2) by blast
qed

lemma phased_weaken:
  assumes "phased lo hi m" and "lo' \<le> lo" and "hi \<le> hi'"
  shows "phased lo' hi' m"
  unfolding phased_def
proof (intro allI conjI)
  fix s
  from assms(1) obtain evs where e: "path_isfile (snd (m s)) = path_isfile s"
    "trace (snd (m s)) = trace s @ evs" "sorted (map phase evs)"
    "list_all (\<lambda>e. lo \<le> phase e \<and> phase e \<le> hi) evs"
    unfolding phased_def by blast
  show "path_isfile (snd (m s)) = path_isfile s" by (rule e)
  have "list_all (\<lambda>e. lo' \<le> phase e \<and> phase e \<le> hi') evs"
    using e(4) assms(2,3) by (auto simp: list_all_iff)
  then show "\<exists>evs. trace (snd (m s)) = trace s @ evs \<and> sorted (map phase evs) \<and>
                 list_all (\<lambda>e. lo' \<le> phase e \<and> phase e \<le> hi') evs"
    using e(2,3) by blast
qed

lemma phased_bnd:
  assumes "phased lo mid m" and "\<And>x. phased mid hi (f x)" and "lo \<le> mid" and "mid \<le> hi"
  shows "phased lo hi (bnd m f)"
  unfolding phased_def
proof (intro allI)
  fix s
  obtain r s1 where ms: "m s = (r, s1)" by (cases "m s")
  from assms(1) ms obtain evs where
    m1: "path_isfile s1 = path_isfile s" "trace s1 = trace s @ evs" "sorted (map phase evs)"
      "list_all (\<lambda>e. lo \<le> phase e \<and> phase e \<le> mid) evs"
    unfolding phased_def by (metis snd_conv)
  show "path_isfile (snd (bnd m f s)) = path_isfile s \<and>
        (\<exists>evs. trace (snd (bnd m f s)) = trace s @ evs \<and> sorted (map phase evs) \<and>
               list_all (\<lambda>e. lo \<le> phase e \<and> phase e \<le> hi) evs)"
  proof (cases r)
    case (Inl e)
    have "list_all (\<lambda>e. lo \<le> phase e \<and> phase e \<le> hi) evs"
      using m1(4) assms(4) by (auto simp: list_all_iff)
    then show ?thesis using ms m1 Inl by (simp add: bnd_def)
  next
    case (Inr x)
    from assms(2) [of x] obtain evs' where
      f1: "path_isfile (snd (f x s1)) = path_isfile s1" "trace (snd (f x s1)) = trace s1 @ evs'"
        "sorted (map phase evs')" "list_all (\<lambda>e. mid \<le> phase e \<and> phase e \<le> hi) evs'"
      unfolding phased_def by blast
    have "sorted (map phase (evs @ evs'))"
      using m1(3,4) f1(3,4) by (fastforce simp: sorted_append list_all_iff)
    moreover have "list_all (\<lambda>e. lo \<le> phase e \<and> phase e \<le> hi) (evs @ evs')"
      using m1(4) f1(4) assms(3,4) by (auto simp: list_all_iff)
    ultimately show ?thesis using ms m1 f1 Inr by (simp add: bnd_def)
  qed
qed

lemma phased_lift: "phased lo hi (lift r)"
  by (cases r) (simp_all add: phased_def lift_def ret_def raise_def)


lemma check_files_phased: "phased 0 0 (check_files w mp a)"
  unfolding check_files_def Let_def
  by (rule phased_of_emits_only, intro emits_only_intros) simp_all

lemma check_shape_phased: "phased 1 1 (check_shape w a)"
  unfolding check_shape_def call_check_img_size_def Let_def
  by (rule phased_of_emits_only, intro emits_only_intros) simp_all

lemma load_config_phased: "phased 2 2 (load_config w a)"
  unfolding load_config_def
  by (rule phased_of_emits_only, intro emits_only_intros) simp_all

lemma check_device_phased: "phased 3 4 (check_device w a)"
  by (auto simp: phased_def check_device_def exec_defs split: sum.splits)

lemma save_args_phased: "phased 5 5 (save_args mp a)"
  unfolding save_args_def
  by (rule phased_of_emits_only, intro emits_only_intros) simp_all

lemma init_ddp_phased: "phased 7 7 (init_ddp w a d)"
  unfolding init_ddp_def
  by (rule phased_of_emits_only, intro emits_only_intros) simp_all


lemma after_files_phased:
  "phased 1 5 (bnd (check_shape w a) (\<lambda>a2.
     bnd (load_config w a2) (\<lambda>cfg.
     bnd (check_device w a2) (\<lambda>d.
     bnd (save_args mp a2) (\<lambda>_. ret (cfg, d, a2))))))"
proof -
  have 5: "phased 5 5 (bnd (save_args mp a2) (\<lambda>_. ret (cfg, d, a2)))" for cfg d and a2
    by (rule phased_bnd [OF save_args_phased]) (simp_all add: phased_def ret_def)
  have 3: "phased 3 5 (bnd (check_device w a2) (\<lambda>d.
             bnd (save_args mp a2) (\<lambda>_. ret (cfg, d, a2))))" for cfg a2
    by (rule phased_bnd [where mid = 4, OF check_device_phased])
       (simp_all add: phased_weaken [OF 5])
  have 2: "phased 2 5 (bnd (load_config w a2) (\<lambda>cfg.
             bnd (check_device w a2) (\<lambda>d.
             bnd (save_args mp a2) (\<lambda>_. ret (cfg, d, a2)))))" for a2
    by (rule phased_bnd [where mid = 2, OF load_config_phased])
       (simp_all add: phased_weaken [OF 3])
  show ?thesis
    by (rule phased_bnd [where mid = 1, OF check_shape_phased])
       (simp_all add: phased_weaken [OF 2])
qed

lemma check_and_init_phased: "phased 0 5 (check_and_init w a)"
  unfolding check_and_init_def
  by (rule phased_bnd [where mid = 0, OF phased_lift],
      rule phased_bnd [where mid = 0, OF check_files_phased])
     (simp_all add: phased_weaken [OF after_files_phased])



section \<open>Facts about whole runs\<close>

lemma is_trainer_event_phase: "is_trainer_event e \<longleftrightarrow> phase e = 8 \<or> phase e = 9"
  by (induction e rule: phase.induct) simp_all

lemma phased_events:
  assumes "phased lo hi m"
  shows "trace (snd (m s)) = trace s @ events_of m s"
    and "sorted (map phase (events_of m s))"
    and "e \<in> set (events_of m s) \<Longrightarrow> lo \<le> phase e \<and> phase e \<le> hi"
    and "path_isfile (snd (m s)) = path_isfile s"
proof -
  from assms obtain evs where e: "path_isfile (snd (m s)) = path_isfile s"
    "trace (snd (m s)) = trace s @ evs" "sorted (map phase evs)"
    "list_all (\<lambda>e. lo \<le> phase e \<and> phase e \<le> hi) evs"
    unfolding phased_def by blast
  have ev: "events_of m s = evs" using e(2) by (simp add: events_of_def)
  show "trace (snd (m s)) = trace s @ events_of m s" using e(2) ev by simp
  show "sorted (map phase (events_of m s))" using e(3) ev by simp
  show "e \<in> set (events_of m s) \<Longrightarrow> lo \<le> phase e \<and> phase e \<le> hi"
    using e(4) ev by (simp add: list_all_iff)
  show "path_isfile (snd (m s)) = path_isfile s" by (rule e(1))
qed

lemma main_Inr_events:
  assumes "main w args s = (Inr u, s')" and "get_envs w = (lr, r, ws)"
  shows "\<exists>cfg dev a2 s2 ddp.
           check_and_init w (set_envs (lr, r, ws) args) s = (Inr (cfg, dev, a2), s2) \<and>
           (if lr \<noteq> - 1 then
              \<exists>url. map_of a2 ''dist_url'' = Some url \<and>
                ddp = [CudaSetDevice (PInt lr), Info InitializingProcessGroup,
                       InitProcessGroup (if is_nccl_available w then ''nccl'' else ''gloo'') url
                         (PInt lr) (PInt ws) 7200]
            else ddp = []) \<and>
           events_of (main w args) s =
             events_of (check_and_init w (set_envs (lr, r, ws) args)) s @
             [Info (TrainingArgs (set_envs (lr, r, ws) a2))] @ ddp @
             NewTrainer (set_envs (lr, r, ws) a2) cfg
               (if lr \<noteq> - 1 then TorchDevice ''cuda'' (PInt lr) else dev) #
             (if quant_and_calib a2 then [Calibrate cfg]
              else Train # (if 1 < ws \<and> r = 0
                            then [Info DestroyingProcessGroup, DestroyProcessGroup] else []))"
proof -
  from main_Inr [OF assms] obtain cfg dev a2 s2 ddp where
    ci: "check_and_init w (set_envs (lr, r, ws) args) s = (Inr (cfg, dev, a2), s2)"
    and dd: "if lr \<noteq> - 1 then
              \<exists>url. map_of a2 ''dist_url'' = Some url \<and>
                ddp = [CudaSetDevice (PInt lr), Info InitializingProcessGroup,
                       InitProcessGroup (if is_nccl_available w then ''nccl'' else ''gloo'') url
                         (PInt lr) (PInt ws) 7200]
            else ddp = []"
    and tr: "trace s' = trace s2 @ [Info (TrainingArgs (set_envs (lr, r, ws) a2))] @ ddp @
             NewTrainer (set_envs (lr, r, ws) a2) cfg
               (if lr \<noteq> - 1 then TorchDevice ''cuda'' (PInt lr) else dev) #
             (if quant_and_calib a2 then [Calibrate cfg]
              else Train # (if 1 < ws \<and> r = 0
                            then [Info DestroyingProcessGroup, DestroyProcessGroup] else []))"
    by blast
  from phased_events(1) [OF check_and_init_phased [of w "set_envs (lr, r, ws) args"],
      where s = s] ci
  have "trace s2 = trace s @ events_of (check_and_init w (set_envs (lr, r, ws) args)) s"
    by simp
  with tr assms(1) have "events_of (main w args) s =
             events_of (check_and_init w (set_envs (lr, r, ws) args)) s @
             [Info (TrainingArgs (set_envs (lr, r, ws) a2))] @ ddp @
             NewTrainer (set_envs (lr, r, ws) a2) cfg
               (if lr \<noteq> - 1 then TorchDevice ''cuda'' (PInt lr) else dev) #
             (if quant_and_calib a2 then [Calibrate cfg]
              else Train # (if 1 < ws \<and> r = 0
                            then [Info DestroyingProcessGroup, DestroyProcessGroup] else []))"
    by (intro events_ofI) simp
  with ci dd show ?thesis by blast
qed

lemma main_trainer_events:
  "\<exists>b cfg d. filter is_trainer_event (events_of (main w args) s)
      \<in> {[], [NewTrainer b cfg d], [NewTrainer b cfg d, Calibrate cfg],
          [NewTrainer b cfg d, Train]}"
proof -
  let ?A = "set_envs (get_envs w) args"
  obtain r1 s1 where ci: "check_and_init w ?A s = (r1, s1)" by (cases "check_and_init w ?A s")
  have quiet: "filter is_trainer_event evs = []"
    if "\<And>e. e \<in> set evs \<Longrightarrow> phase e \<le> 7" for evs
    using that by (fastforce simp: filter_empty_conv is_trainer_event_phase)
  from phased_events [OF check_and_init_phased [of w ?A], where s = s] ci
  have t1: "trace s1 = trace s @ events_of (check_and_init w ?A) s"
    and p1: "\<And>e. e \<in> set (events_of (check_and_init w ?A) s) \<Longrightarrow> phase e \<le> 7"
    by fastforce+
  show ?thesis
  proof (cases r1)
    case (Inl e)
    with ci have "main w args s = (Inl e, s1)" by (simp add: main_def Let_def bnd_def)
    with t1 have "events_of (main w args) s = events_of (check_and_init w ?A) s"
      by (simp add: events_of_def)
    with quiet [OF p1] show ?thesis by simp
  next
    case (Inr x)
    obtain cfg dev a2 where x: "x = (cfg, dev, a2)" by (cases x)
    let ?b = "set_envs (get_envs w) a2"
    let ?s3 = "s1\<lparr>trace := trace s1 @ [Info (TrainingArgs ?b)]\<rparr>"
    from ci Inr x have m: "main w args s = bnd (init_ddp w ?b dev) (start_trainer ?b cfg) ?s3"
      by (simp add: main_def Let_def bnd_def emit_def)
    obtain r2 s4 where dd: "init_ddp w ?b dev ?s3 = (r2, s4)"
      by (cases "init_ddp w ?b dev ?s3")
    from phased_events [OF init_ddp_phased [of w ?b dev], where s = ?s3] dd
    have t2: "trace s4 = trace ?s3 @ events_of (init_ddp w ?b dev) ?s3"
      and p2: "\<And>e. e \<in> set (events_of (init_ddp w ?b dev) ?s3) \<Longrightarrow> phase e \<le> 7"
      by fastforce+
    let ?pre = "events_of (check_and_init w ?A) s @ [Info (TrainingArgs ?b)]
                  @ events_of (init_ddp w ?b dev) ?s3"
    have pre: "filter is_trainer_event ?pre = []"
      by (rule quiet) (use p1 p2 in auto)
    have t4: "trace s4 = trace s @ ?pre" using t1 t2 by simp
    show ?thesis
    proof (cases r2)
      case (Inl e)
      with m dd have "main w args s = (Inl e, s4)" by (simp add: bnd_def)
      with t4 have "events_of (main w args) s = ?pre" by (simp add: events_of_def)
      with pre show ?thesis by simp
    next
      case (Inr d')
      with m dd have m': "main w args s = start_trainer ?b cfg d' s4" by (simp add: bnd_def)
      from start_trainer_trace [of ?b cfg d' s4] obtain evs where
        st: "trace (snd (start_trainer ?b cfg d' s4)) = trace s4 @ NewTrainer ?b cfg d' # evs"
        and forms: "evs \<in> {[], [Calibrate cfg], [Train],
                 [Train, Info DestroyingProcessGroup, DestroyProcessGroup]}"
        by blast
      from m' st t4 have "events_of (main w args) s = ?pre @ NewTrainer ?b cfg d' # evs"
        by (simp add: events_of_def)
      then have "filter is_trainer_event (events_of (main w args) s)
                   = NewTrainer ?b cfg d' # filter is_trainer_event evs"
        using pre by simp
      with forms show ?thesis by auto
    qed
  qed
qed







section \<open>Facts about the inference script\<close>

lemma emits_onlyE:
  assumes "emits_only P m"
  obtains r s1 evs where "m s = (r, s1)" "trace s1 = trace s @ evs" "list_all P evs"
proof -
  obtain r s1 where ms: "m s = (r, s1)" by (cases "m s")
  from assms ms obtain evs where "trace s1 = trace s @ evs" "list_all P evs"
    unfolding emits_only_def by (metis snd_conv)
  with ms that show thesis by blast
qed

lemma run_unfold:
  "run a =
     bnd (if \<not> not_save_img a \<or> save_txt a
           then bnd (os_path_exists (save_dir_of a)) (\<lambda>found. ret (\<not> found))
           else ret False) (\<lambda>create.
      bnd (if create then os_makedirs (InferMakedirs (save_dir_of a)) (save_dir_of a)
           else emit (InferWarning SaveDirExisted)) (\<lambda>_.
      bnd (if save_txt a then
              bnd (os_path_exists (osp_join (save_dir_of a) ''labels'')) (\<lambda>found.
              if \<not> found then os_makedirs (InferMakedirs (osp_join (save_dir_of a) ''labels''))
                                (osp_join (save_dir_of a) ''labels'')
              else ret ())
           else ret ()) (\<lambda>_.
      bnd (emit (NewInferer (source a) (webcam a) (webcam_addr a) (weights a) (device a)
                   (yaml a) (img_size a) (half a))) (\<lambda>_.
      bnd (emit (Infer (conf_thres a) (iou_thres a) (classes a) (agnostic_nms a) (max_det a)
                   (save_dir_of a) (save_txt a) (\<not> not_save_img a) (hide_labels a) (hide_conf a)
                   (view_img a))) (\<lambda>_.
      if save_txt a \<or> \<not> not_save_img a then emit (InferInfo (ResultsSavedTo (save_dir_of a)))
      else ret ())))))"
  by (cases "save_dir a") (simp_all add: run_def save_dir_of_def Let_def cong del: if_weak_cong)

lemma run_inferer_events:
  "filter is_inferer_event (events_of (run a) s)
     = (if fst (run a s) = Inr () then
        [NewInferer (source a) (webcam a) (webcam_addr a) (weights a) (device a) (yaml a)
             (img_size a) (half a),
           Infer (conf_thres a) (iou_thres a) (classes a) (agnostic_nms a) (max_det a)
             (save_dir_of a) (save_txt a) (\<not> not_save_img a) (hide_labels a) (hide_conf a)
             (view_img a)] else [])"
proof -
  let ?Q = "\<lambda>e. \<not> is_inferer_event e"
  let ?M1 = "bnd (if \<not> not_save_img a \<or> save_txt a
           then bnd (os_path_exists (save_dir_of a)) (\<lambda>found. ret (\<not> found))
           else ret False) (\<lambda>create.
      bnd (if create then os_makedirs (InferMakedirs (save_dir_of a)) (save_dir_of a)
           else emit (InferWarning SaveDirExisted)) (\<lambda>_.
      (if save_txt a then
              bnd (os_path_exists (osp_join (save_dir_of a) ''labels'')) (\<lambda>found.
              if \<not> found then os_makedirs (InferMakedirs (osp_join (save_dir_of a) ''labels''))
                                (osp_join (save_dir_of a) ''labels'')
              else ret ())
           else ret ())))"
  let ?K = "\<lambda>u :: unit. bnd (emit (NewInferer (source a) (webcam a) (webcam_addr a) (weights a) (device a)
                   (yaml a) (img_size a) (half a))) (\<lambda>_.
      bnd (emit (Infer (conf_thres a) (iou_thres a) (classes a) (agnostic_nms a) (max_det a)
                   (save_dir_of a) (save_txt a) (\<not> not_save_img a) (hide_labels a) (hide_conf a)
                   (view_img a))) (\<lambda>_.
      if save_txt a \<or> \<not> not_save_img a then emit (InferInfo (ResultsSavedTo (save_dir_of a)))
      else ret ()))"
  have assoc: "bnd (bnd m f) g = bnd m (\<lambda>x. bnd (f x) g)" for m :: "('e, 'x) exec"
    and f :: "'x \<Rightarrow> ('e, 'y) exec" and g :: "'y \<Rightarrow> ('e, 'z) exec"
    by (rule ext) (simp add: bnd_def split: prod.splits sum.splits)
  have u: "run a = bnd ?M1 ?K"
    by (simp add: run_unfold assoc)
  have e: "emits_only ?Q ?M1"
    by (intro emits_only_intros) simp_all
  from e obtain r s1 evs where m: "?M1 s = (r, s1)" and t: "trace s1 = trace s @ evs"
    and q: "list_all ?Q evs"
    by (rule emits_onlyE)
  from q have f: "filter is_inferer_event evs = []"
    by (simp add: filter_empty_conv list_all_iff)
  show ?thesis
  proof (cases r)
    case (Inl x)
    with m have "run a s = (Inl x, s1)" by (simp add: u bnd_def)
    with t f show ?thesis by (simp add: events_of_def)
  next
    case (Inr y)
    with m have "run a s = ?K () s1" by (simp add: u bnd_def)
    also have "\<dots> = (Inr (), s1\<lparr>trace := trace s1 @
        [NewInferer (source a) (webcam a) (webcam_addr a) (weights a) (device a) (yaml a)
             (img_size a) (half a),
           Infer (conf_thres a) (iou_thres a) (classes a) (agnostic_nms a) (max_det a)
             (save_dir_of a) (save_txt a) (\<not> not_save_img a) (hide_labels a) (hide_conf a)
             (view_img a)] @
        (if save_txt a \<or> \<not> not_save_img a then [InferInfo (ResultsSavedTo (save_dir_of a))]
         else [])\<rparr>)"
      by (simp add: bnd_def emit_def ret_def)
    finally show ?thesis using t f by (simp add: events_of_def)
  qed
qed

section \<open>The patch of \<^verbatim>\<open>torch.load\<close>\<close>

text \<open>
  Claim C8. After either script has been imported, a call of \<^verbatim>\<open>torch.load\<close> that passes no
  \<^verbatim>\<open>weights_only\<close> keyword reaches the original function with \<^verbatim>\<open>weights_only=False\<close> added
  to its keywords, and a call that passes \<^verbatim>\<open>weights_only\<close> reaches it with the keywords
  unchanged; the positional arguments are handed on in both cases.
\<close>

theorem torch_load_patched:
  fixes m :: "'r torch"
  shows "(map_of kwargs ''weights_only'' = None \<longrightarrow>
            snd (load (train_import m) args kwargs)
              = snd (load m args (kwargs @ [(''weights_only'', PBool False)])) \<and>
            snd (load (infer_import m) args kwargs)
              = snd (load m args (kwargs @ [(''weights_only'', PBool False)]))) \<and>
         (map_of kwargs ''weights_only'' \<noteq> None \<longrightarrow>
            snd (load (train_import m) args kwargs) = snd (load m args kwargs) \<and>
            snd (load (infer_import m) args kwargs) = snd (load m args kwargs))"
  by (auto simp: train_import_def infer_import_def custom_torch_load_def update_absent
      split: prod.splits)

theorem torch_load_patched_witness:
  "map_of ([] :: namespace) ''weights_only'' = None \<and>
   snd (load (train_import sample_torch) [PStr ''yolov6s.pt''] [])
     = [(''weights_only'', PBool False)] \<and>
   map_of [(''weights_only'', PBool True)] ''weights_only'' \<noteq> None \<and>
   snd (load (infer_import sample_torch) [PStr ''yolov6s.pt''] [(''weights_only'', PBool True)])
     = [(''weights_only'', PBool True)]"
  using torch_load_patched [of "[]" sample_torch "[PStr ''yolov6s.pt'']"]
    torch_load_patched [of "[(''weights_only'', PBool True)]" sample_torch
      "[PStr ''yolov6s.pt'']"]
  by (simp add: sample_torch_def)

section \<open>The save directory of an inference run\<close>




section \<open>The process group\<close>

text \<open>
  Claim C2, as amended. In a run of \<^verbatim>\<open>main\<close> that returns, the process group is initialised
  exactly when \<^verbatim>\<open>local_rank\<close> is not -1. The group is destroyed exactly when the run called
  \<^verbatim>\<open>trainer.train()\<close>, \<^verbatim>\<open>world_size > 1\<close> and \<^verbatim>\<open>rank == 0\<close>, and then as the last effect of
  the run; the run called \<^verbatim>\<open>trainer.train()\<close> exactly when it did not call
  \<^verbatim>\<open>trainer.calibrate\<close>, that is, unless \<^verbatim>\<open>quant\<close> and \<^verbatim>\<open>calib\<close> are both set. So a process that
  joined the group with a rank other than 0, or in a world of size one, or that took the
  calibration path, ends without tearing the group down.
\<close>

theorem process_group_teardown:
  assumes "main w args s = (Inr (), s')" and "get_envs w = (lr, r, ws)"
  shows "((\<exists>b u x n t. InitProcessGroup b u x n t \<in> set (events_of (main w args) s))
            \<longleftrightarrow> lr \<noteq> - 1) \<and>
         (DestroyProcessGroup \<in> set (events_of (main w args) s)
            \<longleftrightarrow> Train \<in> set (events_of (main w args) s) \<and> 1 < ws \<and> r = 0) \<and>
         (DestroyProcessGroup \<in> set (events_of (main w args) s)
            \<longrightarrow> last (events_of (main w args) s) = DestroyProcessGroup) \<and>
         (Train \<in> set (events_of (main w args) s)
            \<longleftrightarrow> (\<forall>c. Calibrate c \<notin> set (events_of (main w args) s))) \<and>
         (\<exists>b c d. NewTrainer b c d \<in> set (events_of (main w args) s) \<and>
            (Train \<in> set (events_of (main w args) s) \<longleftrightarrow> \<not> quant_and_calib b))"
proof -
  let ?A = "set_envs (lr, r, ws) args"
  from main_Inr_events [OF assms] obtain cfg dev a2 s2 ddp where
    dd: "if lr \<noteq> - 1 then
              \<exists>url. map_of a2 ''dist_url'' = Some url \<and>
                ddp = [CudaSetDevice (PInt lr), Info InitializingProcessGroup,
                       InitProcessGroup (if is_nccl_available w then ''nccl'' else ''gloo'') url
                         (PInt lr) (PInt ws) 7200]
            else ddp = []"
    and ev: "events_of (main w args) s =
             events_of (check_and_init w ?A) s @
             [Info (TrainingArgs (set_envs (lr, r, ws) a2))] @ ddp @
             NewTrainer (set_envs (lr, r, ws) a2) cfg
               (if lr \<noteq> - 1 then TorchDevice ''cuda'' (PInt lr) else dev) #
             (if quant_and_calib a2 then [Calibrate cfg]
              else Train # (if 1 < ws \<and> r = 0
                            then [Info DestroyingProcessGroup, DestroyProcessGroup] else []))"
    by blast
  have early: "phase e \<le> 5" if "e \<in> set (events_of (check_and_init w ?A) s)" for e
    using phased_events(3) [OF check_and_init_phased that] by simp
  have no_init: "InitProcessGroup b u x n t \<notin> set (events_of (check_and_init w ?A) s)"
    for b u x n t using early by fastforce
  have no_destroy: "DestroyProcessGroup \<notin> set (events_of (check_and_init w ?A) s)"
    using early by fastforce
  have no_train: "Train \<notin> set (events_of (check_and_init w ?A) s)"
    using early by fastforce
  have no_cal: "Calibrate c \<notin> set (events_of (check_and_init w ?A) s)" for c
    using early by fastforce
  have qc: "quant_and_calib (set_envs (lr, r, ws) a2) = quant_and_calib a2"
    by (simp add: quant_and_calib_def map_of_set_envs split: option.splits)
  have ddp: "Train \<notin> set ddp" "DestroyProcessGroup \<notin> set ddp" "\<And>c. Calibrate c \<notin> set ddp"
    "(\<exists>b u x n t. InitProcessGroup b u x n t \<in> set ddp) \<longleftrightarrow> lr \<noteq> - 1"
    using dd by (auto split: if_splits)
  have i: "(\<exists>b u x n t. InitProcessGroup b u x n t \<in> set (events_of (main w args) s))
            \<longleftrightarrow> lr \<noteq> - 1"
    unfolding ev using no_init ddp(4) by (auto split: if_splits)
  have t: "Train \<in> set (events_of (main w args) s) \<longleftrightarrow> \<not> quant_and_calib a2"
    unfolding ev using no_train ddp(1) by (auto split: if_splits)
  have c: "(\<exists>c. Calibrate c \<in> set (events_of (main w args) s)) \<longleftrightarrow> quant_and_calib a2"
    unfolding ev using no_cal ddp(3) by (auto split: if_splits)
  have d: "DestroyProcessGroup \<in> set (events_of (main w args) s)
             \<longleftrightarrow> \<not> quant_and_calib a2 \<and> 1 < ws \<and> r = 0"
    unfolding ev using no_destroy ddp(2) by (auto split: if_splits)
  have l: "last (events_of (main w args) s) = DestroyProcessGroup"
    if "\<not> quant_and_calib a2" "1 < ws" "r = 0"
    unfolding ev using that by simp
  have n: "NewTrainer (set_envs (lr, r, ws) a2) cfg
             (if lr \<noteq> - 1 then TorchDevice ''cuda'' (PInt lr) else dev)
           \<in> set (events_of (main w args) s)"
    unfolding ev by simp
  have "\<exists>b c d. NewTrainer b c d \<in> set (events_of (main w args) s) \<and>
            (Train \<in> set (events_of (main w args) s) \<longleftrightarrow> \<not> quant_and_calib b)"
    using n t qc by blast
  with i t c d l show ?thesis by blast
qed

text \<open>A run of rank 0 in a world of two processes: the group is destroyed at the end.\<close>

theorem process_group_teardown_witness:
  "fst (main rank0_world get_args_parser empty_fs) = Inr () \<and>
   get_envs rank0_world = (0, 0, 2) \<and>
   Train \<in> set (events_of (main rank0_world get_args_parser) empty_fs) \<and>
   DestroyProcessGroup \<in> set (events_of (main rank0_world get_args_parser) empty_fs) \<and>
   last (events_of (main rank0_world get_args_parser) empty_fs) = DestroyProcessGroup"
proof -
  have r: "fst (main rank0_world get_args_parser empty_fs) = Inr ()" by code_simp
  then have m: "main rank0_world get_args_parser empty_fs
                  = (Inr (), snd (main rank0_world get_args_parser empty_fs))"
    by (simp add: prod_eq_iff)
  have e: "get_envs rank0_world = (0, 0, 2)" by (simp add: rank0_world_def)
  have t: "Train \<in> set (events_of (main rank0_world get_args_parser) empty_fs)" by code_simp
  show ?thesis
    using process_group_teardown [OF m e] r e t by simp
qed

text \<open>
  Claim C2 as stated fails on two runs that return in a world of two processes. A run of
  rank 1 with the parser's defaults returns from \<^verbatim>\<open>trainer.train()\<close>, has joined the process
  group and has not destroyed it. A run of rank 0 with \<^verbatim>\<open>--quant --calib\<close> has joined the
  group, returns after \<^verbatim>\<open>trainer.calibrate\<close> and has not destroyed it.
\<close>

theorem process_group_not_destroyed_counterexample:
  "fst (main rank1_world get_args_parser empty_fs) = Inr () \<and>
   InitProcessGroup ''nccl'' (PStr ''env://'') (PInt 1) (PInt 2) 7200
     \<in> set (events_of (main rank1_world get_args_parser) empty_fs) \<and>
   Train \<in> set (events_of (main rank1_world get_args_parser) empty_fs) \<and>
   DestroyProcessGroup \<notin> set (events_of (main rank1_world get_args_parser) empty_fs) \<and>
   fst (main rank0_world quant_calib_args empty_fs) = Inr () \<and>
   InitProcessGroup ''nccl'' (PStr ''env://'') (PInt 0) (PInt 2) 7200
     \<in> set (events_of (main rank0_world quant_calib_args) empty_fs) \<and>
   Train \<notin> set (events_of (main rank0_world quant_calib_args) empty_fs) \<and>
   DestroyProcessGroup \<notin> set (events_of (main rank0_world quant_calib_args) empty_fs)"
  by code_simp

section \<open>One collaborator, one method\<close>

text \<open>
  Claim C7, as amended. A run of \<^verbatim>\<open>run\<close> that returns has constructed one \<^verbatim>\<open>Inferer\<close> and then
  called its \<^verbatim>\<open>infer\<close> once; a run that raises (at \<^verbatim>\<open>os.makedirs\<close>) has constructed none. A
  run of \<^verbatim>\<open>main\<close> that returns has constructed one \<^verbatim>\<open>Trainer\<close> and then called one of its
  methods: \<^verbatim>\<open>calibrate\<close> when \<^verbatim>\<open>quant\<close> and \<^verbatim>\<open>calib\<close> are both set, \<^verbatim>\<open>train\<close> otherwise. No run
  of \<^verbatim>\<open>main\<close>, returning or raising, constructs two trainers or calls both methods; a run
  that raises may have constructed no trainer at all. Once the setup is done, the part of
  \<^verbatim>\<open>main\<close> from \<^verbatim>\<open># Start\<close> on constructs the \<^verbatim>\<open>Trainer\<close> first; with \<^verbatim>\<open>quant\<close> and \<^verbatim>\<open>calib\<close>
  both set it calls \<^verbatim>\<open>calibrate\<close> and returns, and with \<^verbatim>\<open>quant\<close> unset it calls \<^verbatim>\<open>train\<close>.
\<close>

theorem one_collaborator_one_method:
  "(fst (run a si) = Inr () \<longrightarrow>
      filter is_inferer_event (events_of (run a) si)
        = [NewInferer (source a) (webcam a) (webcam_addr a) (weights a) (device a) (yaml a)
             (img_size a) (half a),
           Infer (conf_thres a) (iou_thres a) (classes a) (agnostic_nms a) (max_det a)
             (save_dir_of a) (save_txt a) (\<not> not_save_img a) (hide_labels a) (hide_conf a)
             (view_img a)]) \<and>
   (fst (run a si) \<noteq> Inr () \<longrightarrow> filter is_inferer_event (events_of (run a) si) = []) \<and>
   (\<forall>s'. main w args s = (Inr (), s') \<longrightarrow>
      (\<exists>b cfg d. filter is_trainer_event (events_of (main w args) s)
                   = [NewTrainer b cfg d, if quant_and_calib b then Calibrate cfg else Train])) \<and>
   (\<exists>b cfg d. filter is_trainer_event (events_of (main w args) s)
      \<in> {[], [NewTrainer b cfg d], [NewTrainer b cfg d, Calibrate cfg],
          [NewTrainer b cfg d, Train]}) \<and>
   (\<forall>q c. map_of b0 ''quant'' = Some q \<and> truthy q \<and> map_of b0 ''calib'' = Some c \<and> truthy c
      \<longrightarrow> start_trainer b0 c0 d0 s0
            = (Inr (), s0\<lparr>trace := trace s0 @ [NewTrainer b0 c0 d0, Calibrate c0]\<rparr>)) \<and>
   (\<forall>q. map_of b0 ''quant'' = Some q \<and> \<not> truthy q
      \<longrightarrow> (\<exists>evs. events_of (start_trainer b0 c0 d0) s0 = NewTrainer b0 c0 d0 # Train # evs \<and>
                 filter is_trainer_event evs = []))"
proof (intro conjI allI impI)
  show "\<exists>b cfg d. filter is_trainer_event (events_of (main w args) s)
      \<in> {[], [NewTrainer b cfg d], [NewTrainer b cfg d, Calibrate cfg],
          [NewTrainer b cfg d, Train]}"
    by (rule main_trainer_events)
next
  assume "fst (run a si) = Inr ()"
  then show "filter is_inferer_event (events_of (run a) si)
     = [NewInferer (source a) (webcam a) (webcam_addr a) (weights a) (device a) (yaml a)
          (img_size a) (half a),
        Infer (conf_thres a) (iou_thres a) (classes a) (agnostic_nms a) (max_det a)
          (save_dir_of a) (save_txt a) (\<not> not_save_img a) (hide_labels a) (hide_conf a)
          (view_img a)]"
    by (simp add: run_inferer_events)
next
  assume "fst (run a si) \<noteq> Inr ()"
  then show "filter is_inferer_event (events_of (run a) si) = []"
    by (simp add: run_inferer_events)
next
  fix q c assume "map_of b0 ''quant'' = Some q \<and> truthy q \<and> map_of b0 ''calib'' = Some c \<and> truthy c"
  then show "start_trainer b0 c0 d0 s0
            = (Inr (), s0\<lparr>trace := trace s0 @ [NewTrainer b0 c0 d0, Calibrate c0]\<rparr>)"
    by (simp add: start_trainer_def getattr_def exec_defs)
next
  fix q assume "map_of b0 ''quant'' = Some q \<and> \<not> truthy q"
  then show "\<exists>evs. events_of (start_trainer b0 c0 d0) s0 = NewTrainer b0 c0 d0 # Train # evs \<and>
                 filter is_trainer_event evs = []"
    by (auto simp: start_trainer_def getattr_def exec_defs events_of_def
        split: sum.splits option.splits if_splits)
next
  fix s' assume m: "main w args s = (Inr (), s')"
  obtain lr r ws where e: "get_envs w = (lr, r, ws)" by (cases "get_envs w")
  let ?A = "set_envs (lr, r, ws) args"
  from main_Inr_events [OF m e] obtain cfg dev a2 ddp where
    dd: "if lr \<noteq> - 1 then
              \<exists>url. map_of a2 ''dist_url'' = Some url \<and>
                ddp = [CudaSetDevice (PInt lr), Info InitializingProcessGroup,
                       InitProcessGroup (if is_nccl_available w then ''nccl'' else ''gloo'') url
                         (PInt lr) (PInt ws) 7200]
            else ddp = []"
    and ev: "events_of (main w args) s =
             events_of (check_and_init w ?A) s @
             [Info (TrainingArgs (set_envs (lr, r, ws) a2))] @ ddp @
             NewTrainer (set_envs (lr, r, ws) a2) cfg
               (if lr \<noteq> - 1 then TorchDevice ''cuda'' (PInt lr) else dev) #
             (if quant_and_calib a2 then [Calibrate cfg]
              else Train # (if 1 < ws \<and> r = 0
                            then [Info DestroyingProcessGroup, DestroyProcessGroup] else []))"
    by blast
  have "\<not> is_trainer_event e" if "e \<in> set (events_of (check_and_init w ?A) s)" for e
    using phased_events(3) [OF check_and_init_phased that] by (simp add: is_trainer_event_phase)
  then have early: "filter is_trainer_event (events_of (check_and_init w ?A) s) = []"
    by (simp add: filter_empty_conv)
  have ddp: "filter is_trainer_event ddp = []"
    using dd by (auto split: if_splits)
  have qc: "quant_and_calib (set_envs (lr, r, ws) a2) = quant_and_calib a2"
    by (simp add: quant_and_calib_def map_of_set_envs split: option.splits)
  show "\<exists>b cfg d. filter is_trainer_event (events_of (main w args) s)
                   = [NewTrainer b cfg d, if quant_and_calib b then Calibrate cfg else Train]"
    unfolding ev using early ddp qc
    by (intro exI [of _ "set_envs (lr, r, ws) a2"] exI [of _ cfg]
          exI [of _ "if lr \<noteq> - 1 then TorchDevice ''cuda'' (PInt lr) else dev"]) simp
qed

text \<open>
  Three runs on a file system with nothing in it that return: \<^verbatim>\<open>main\<close> with the parser's
  defaults, which trains; \<^verbatim>\<open>main\<close> with \<^verbatim>\<open>--quant --calib\<close>, which calibrates; and \<^verbatim>\<open>run\<close> with
  \<^verbatim>\<open>--not-save-img\<close>.
\<close>

theorem one_collaborator_one_method_witness:
  "fst (main sample_world get_args_parser empty_fs) = Inr () \<and>
   (\<exists>b cfg d. filter is_trainer_event (events_of (main sample_world get_args_parser) empty_fs)
                = [NewTrainer b cfg d, Train]) \<and>
   fst (main sample_world quant_calib_args empty_fs) = Inr () \<and>
   (\<exists>b cfg d. filter is_trainer_event (events_of (main sample_world quant_calib_args) empty_fs)
                = [NewTrainer b cfg d, Calibrate cfg]) \<and>
   fst (run sample_run_args empty_fs) = Inr () \<and>
   filter is_inferer_event (events_of (run sample_run_args) empty_fs)
     = [NewInferer ''data/images'' ''False'' ''0'' ''weights/yolov6s.pt'' ''0'' ''data/coco.yaml''
          ''[640, 640]'' ''False'',
        Infer ''0.4'' ''0.45'' ''None'' ''False'' ''1000'' ''runs/inference/exp'' False False
          ''False'' ''False'' ''False'']"
proof -
  let ?T = "events_of (main sample_world get_args_parser) empty_fs"
  let ?C = "events_of (main sample_world quant_calib_args) empty_fs"
  have r1: "fst (main sample_world get_args_parser empty_fs) = Inr ()" by code_simp
  then have m1: "main sample_world get_args_parser empty_fs
                  = (Inr (), snd (main sample_world get_args_parser empty_fs))"
    by (simp add: prod_eq_iff)
  have r2: "fst (main sample_world quant_calib_args empty_fs) = Inr ()" by code_simp
  then have m2: "main sample_world quant_calib_args empty_fs
                  = (Inr (), snd (main sample_world quant_calib_args empty_fs))"
    by (simp add: prod_eq_iff)
  have r3: "fst (run sample_run_args (empty_fs :: string infer_event state)) = Inr ()"
    by code_simp
  have l1: "last (filter is_trainer_event ?T) = Train" by code_simp
  have l2: "last (filter is_trainer_event ?C) \<noteq> Train" by code_simp
  have fields: "source sample_run_args = ''data/images''" "webcam sample_run_args = ''False''"
    "webcam_addr sample_run_args = ''0''" "weights sample_run_args = ''weights/yolov6s.pt''"
    "device sample_run_args = ''0''" "yaml sample_run_args = ''data/coco.yaml''"
    "img_size sample_run_args = ''[640, 640]''" "half sample_run_args = ''False''"
    "conf_thres sample_run_args = ''0.4''" "iou_thres sample_run_args = ''0.45''"
    "classes sample_run_args = ''None''" "agnostic_nms sample_run_args = ''False''"
    "max_det sample_run_args = ''1000''" "save_dir_of sample_run_args = ''runs/inference/exp''"
    "save_txt sample_run_args = False" "not_save_img sample_run_args = True"
    "hide_labels sample_run_args = ''False''" "hide_conf sample_run_args = ''False''"
    "view_img sample_run_args = ''False''"
    by (simp_all add: sample_run_args_def save_dir_of_def osp_join_def)
  note thm1 = one_collaborator_one_method [of sample_run_args empty_fs sample_world
      get_args_parser empty_fs]
  note thm2 = one_collaborator_one_method [of sample_run_args empty_fs sample_world
      quant_calib_args empty_fs]
  from thm1 m1 obtain b cfg d where
    t: "filter is_trainer_event ?T
          = [NewTrainer b cfg d, if quant_and_calib b then Calibrate cfg else Train]"
    by blast
  with l1 have t': "filter is_trainer_event ?T = [NewTrainer b cfg d, Train]"
    by (simp split: if_splits)
  from thm2 m2 obtain b' cfg' d' where
    c: "filter is_trainer_event ?C
          = [NewTrainer b' cfg' d', if quant_and_calib b' then Calibrate cfg' else Train]"
    by blast
  with l2 have c': "filter is_trainer_event ?C = [NewTrainer b' cfg' d', Calibrate cfg']"
    by (simp split: if_splits)
  from thm1 r3 have i: "filter is_inferer_event (events_of (run sample_run_args) empty_fs)
     = [NewInferer ''data/images'' ''False'' ''0'' ''weights/yolov6s.pt'' ''0'' ''data/coco.yaml''
          ''[640, 640]'' ''False'',
        Infer ''0.4'' ''0.45'' ''None'' ''False'' ''1000'' ''runs/inference/exp'' False False
          ''False'' ''False'' ''False'']"
    by (simp add: fields)
  show ?thesis using r1 r2 r3 t' c' i by blast
qed

text \<open>
  Claim C7 as stated fails on runs that raise. \<^verbatim>\<open>main\<close> with \<^verbatim>\<open>--resume missing.pt\<close>, where no
  such file exists, ends with the assertion error of \<^verbatim>\<open>check_and_init\<close> and has constructed
  no \<^verbatim>\<open>Trainer\<close>. \<^verbatim>\<open>run\<close> with \<^verbatim>\<open>--save-dir ''\<close> ends at \<^verbatim>\<open>os.makedirs\<close> and has constructed no
  \<^verbatim>\<open>Inferer\<close>.
\<close>

theorem no_collaborator_counterexample:
  "fst (main sample_world missing_checkpoint_args empty_fs)
     = Inl (AssertionError ''missing.pt'') \<and>
   filter is_trainer_event (events_of (main sample_world missing_checkpoint_args) empty_fs)
     = [] \<and>
   fst (run empty_save_dir_args empty_fs) = Inl (FileNotFoundError []) \<and>
   filter is_inferer_event (events_of (run empty_save_dir_args) empty_fs) = []"
  by code_simp

section \<open>The order of the setup steps\<close>



end
